theory Spec2Isabelle
  imports Complex_Main
begin

unbundle bit_operations_syntax

section \<open>Python values used by the adapters\<close>

text \<open>
  The exceptions the adapter code itself can raise: a dictionary subscript on a missing key
  and an ordering comparison with \<open>None\<close>.
\<close>

datatype py_error = KeyError | TypeError

text \<open>
  A temperature, humidity or battery reading is a JSON number or \<open>None\<close>;
  \<open>None\<close> of Python is \<open>None\<close> here.  Truthiness: \<open>None\<close> and zero are falsy.
\<close>

type_synonym py_num = "real option"

fun py_truthy :: "py_num \<Rightarrow> bool" where
  "py_truthy None = False"
| "py_truthy (Some x) = (x \<noteq> 0)"

fun py_lt :: "py_num \<Rightarrow> py_num \<Rightarrow> py_error + bool" where
  "py_lt (Some a) (Some b) = Inr (a < b)"
| "py_lt _ _ = Inl TypeError"

fun py_gt :: "py_num \<Rightarrow> py_num \<Rightarrow> py_error + bool" where
  "py_gt (Some a) (Some b) = Inr (a > b)"
| "py_gt _ _ = Inl TypeError"

subsection \<open>Dictionaries\<close>

text \<open>
  A Python dictionary keeps insertion order; storing under a key that is already present
  replaces the value and keeps the key's position.
\<close>

type_synonym ('k, 'v) dict = "('k \<times> 'v) list"

fun dict_set :: "'k \<Rightarrow> 'v \<Rightarrow> ('k, 'v) dict \<Rightarrow> ('k, 'v) dict" where
  "dict_set k v [] = [(k, v)]"
| "dict_set k v (p # d) = (if fst p = k then (fst p, v) # d else p # dict_set k v d)"

text \<open>A dictionary display or comprehension stores its items from left to right.\<close>

definition dict_of_items :: "('k \<times> 'v) list \<Rightarrow> ('k, 'v) dict" where
  "dict_of_items kvs = fold (\<lambda>(k, v) d. dict_set k v d) kvs []"

definition dict_get :: "('k, 'v) dict \<Rightarrow> 'k \<Rightarrow> 'v option" where
  "dict_get d k = map_of d k"

definition dict_subscript :: "('k, 'v) dict \<Rightarrow> 'k \<Rightarrow> py_error + 'v" where
  "dict_subscript d k = (case map_of d k of None \<Rightarrow> Inl KeyError | Some v \<Rightarrow> Inr v)"

definition dict_items :: "('k, 'v) dict \<Rightarrow> ('k \<times> 'v) list" where
  "dict_items d = d"

definition dict_values :: "('k, 'v) dict \<Rightarrow> 'v list" where
  "dict_values d = map snd d"

section \<open>The vendor SDK (pymfy) as the adapter sees it\<close>

datatype DurationType = NEXT_MODE | FURTHER_NOTICE

datatype HvacState = COOL | HEAT

datatype RegulationState = TIMETABLE | DEROGATION

datatype TargetMode = AT_HOME | AWAY | SLEEP | MANUAL | GEOFENCING | FROST_PROTECTION

text \<open>
  What the getters of a \<open>Thermostat\<close> hand back.  For \<open>get_hvac_state\<close> and
  \<open>get_target_mode\<close> the value \<open>None\<close> stands for any result that is not a member
  of the enumeration (the adapter looks both up with \<open>dict.get\<close>).
\<close>

record thermostat =
  th_battery :: "int option"
  th_ambient_temperature :: py_num
  th_target_temperature :: py_num
  th_humidity :: py_num
  th_regulation_state :: RegulationState
  th_hvac_state :: "HvacState option"
  th_target_mode :: "TargetMode option"
  th_at_home_temperature :: py_num
  th_away_temperature :: py_num
  th_night_temperature :: py_num
  th_frost_protection_temperature :: py_num

text \<open>Every call the adapter makes on \<open>self._climate\<close>, in the order it is made.\<close>

datatype vendor_call =
    Get_battery
  | Get_ambient_temperature
  | Get_target_temperature
  | Get_humidity
  | Get_regulation_state
  | Get_hvac_state
  | Get_target_mode
  | Get_at_home_temperature
  | Get_away_temperature
  | Get_night_temperature
  | Get_frost_protection_temperature
  | Set_target TargetMode py_num DurationType
  | Cancel_target

fun is_command :: "vendor_call \<Rightarrow> bool" where
  "is_command (Set_target m t d) = True"
| "is_command Cancel_target = True"
| "is_command _ = False"

text \<open>
  What the two commands do to the device is the vendor's business; it is a parameter of
  the model.  (The SDK sends the command to the cloud; \<open>on_set_target = (\<lambda>m t d th. th)\<close>
  is the case where the locally held device data stay as they are.)
\<close>

record vendor =
  on_set_target :: "TargetMode \<Rightarrow> py_num \<Rightarrow> DurationType \<Rightarrow> thermostat \<Rightarrow> thermostat"
  on_cancel_target :: "thermostat \<Rightarrow> thermostat"

datatype log_entry = LogError string string

text \<open>
  The state a \<open>SomfyClimate\<close> method runs in: the device behind \<open>self._climate\<close>,
  the trace of calls made on it, and what was written to \<open>_LOGGER\<close>.
\<close>

record world =
  device :: thermostat
  calls :: "vendor_call list"
  logged :: "log_entry list"

definition called :: "vendor_call \<Rightarrow> world \<Rightarrow> world" where
  "called c w = w\<lparr>calls := calls w @ [c]\<rparr>"

definition get_battery :: "world \<Rightarrow> int option \<times> world" where
  "get_battery w = (th_battery (device w), called Get_battery w)"

definition get_ambient_temperature :: "world \<Rightarrow> py_num \<times> world" where
  "get_ambient_temperature w = (th_ambient_temperature (device w), called Get_ambient_temperature w)"

definition get_target_temperature :: "world \<Rightarrow> py_num \<times> world" where
  "get_target_temperature w = (th_target_temperature (device w), called Get_target_temperature w)"

definition get_humidity :: "world \<Rightarrow> py_num \<times> world" where
  "get_humidity w = (th_humidity (device w), called Get_humidity w)"

definition get_regulation_state :: "world \<Rightarrow> RegulationState \<times> world" where
  "get_regulation_state w = (th_regulation_state (device w), called Get_regulation_state w)"

definition get_hvac_state :: "world \<Rightarrow> HvacState option \<times> world" where
  "get_hvac_state w = (th_hvac_state (device w), called Get_hvac_state w)"

definition get_target_mode :: "world \<Rightarrow> TargetMode option \<times> world" where
  "get_target_mode w = (th_target_mode (device w), called Get_target_mode w)"

definition get_at_home_temperature :: "world \<Rightarrow> py_num \<times> world" where
  "get_at_home_temperature w = (th_at_home_temperature (device w), called Get_at_home_temperature w)"

definition get_away_temperature :: "world \<Rightarrow> py_num \<times> world" where
  "get_away_temperature w = (th_away_temperature (device w), called Get_away_temperature w)"

definition get_night_temperature :: "world \<Rightarrow> py_num \<times> world" where
  "get_night_temperature w = (th_night_temperature (device w), called Get_night_temperature w)"

definition get_frost_protection_temperature :: "world \<Rightarrow> py_num \<times> world" where
  "get_frost_protection_temperature w =
     (th_frost_protection_temperature (device w), called Get_frost_protection_temperature w)"

definition set_target :: "vendor \<Rightarrow> TargetMode \<Rightarrow> py_num \<Rightarrow> DurationType \<Rightarrow> world \<Rightarrow> world" where
  "set_target V m t d w =
     (called (Set_target m t d) w)\<lparr>device := on_set_target V m t d (device w)\<rparr>"

definition cancel_target :: "vendor \<Rightarrow> world \<Rightarrow> world" where
  "cancel_target V w = (called Cancel_target w)\<lparr>device := on_cancel_target V (device w)\<rparr>"

definition LOGGER_error :: "string \<Rightarrow> string \<Rightarrow> world \<Rightarrow> world" where
  "LOGGER_error fmt arg w = w\<lparr>logged := logged w @ [LogError fmt arg]\<rparr>"

section \<open>Constants of the host platform\<close>

text \<open>
  \<open>climate.py\<close> imports these names from \<open>homeassistant.components.climate.const\<close>
  and \<open>homeassistant.const\<close>, which are not among the files at hand.  They are
  parameters of the model: every definition below takes the record \<open>K\<close> of their values.
\<close>

record const =
  CURRENT_HVAC_COOL :: string
  CURRENT_HVAC_HEAT :: string
  CURRENT_HVAC_IDLE :: string
  HVAC_MODE_AUTO :: string
  HVAC_MODE_COOL :: string
  HVAC_MODE_HEAT :: string
  PRESET_AWAY :: string
  PRESET_HOME :: string
  PRESET_SLEEP :: string
  SUPPORT_PRESET_MODE :: int
  SUPPORT_TARGET_TEMPERATURE :: int
  ATTR_BATTERY_LEVEL :: string
  ATTR_TEMPERATURE :: string
  TEMP_CELSIUS :: string

text \<open>The values these names have in the platform.\<close>

definition K_platform :: const where
  "K_platform =
     \<lparr>CURRENT_HVAC_COOL = ''cooling'', CURRENT_HVAC_HEAT = ''heating'',
      CURRENT_HVAC_IDLE = ''idle'', HVAC_MODE_AUTO = ''auto'', HVAC_MODE_COOL = ''cool'',
      HVAC_MODE_HEAT = ''heat'', PRESET_AWAY = ''away'', PRESET_HOME = ''home'',
      PRESET_SLEEP = ''sleep'', SUPPORT_PRESET_MODE = 16, SUPPORT_TARGET_TEMPERATURE = 1,
      ATTR_BATTERY_LEVEL = ''battery_level'', ATTR_TEMPERATURE = ''temperature'',
      TEMP_CELSIUS = [CHR 0xC2, CHR 0xB0, CHR ''C'']\<rparr>"

section \<open>\<open>homeassistant/components/somfy/climate.py\<close>\<close>

definition PRESET_FROST_GUARD :: string where
  "PRESET_FROST_GUARD = ''Frost Guard''"

definition PRESET_GEOFENCING :: string where
  "PRESET_GEOFENCING = ''Geofencing''"

definition PRESET_MANUAL :: string where
  "PRESET_MANUAL = ''Manual''"

definition PRESETS_MAPPING :: "const \<Rightarrow> (TargetMode, string) dict" where
  "PRESETS_MAPPING K = dict_of_items
     [(AT_HOME, PRESET_HOME K),
      (AWAY, PRESET_AWAY K),
      (SLEEP, PRESET_SLEEP K),
      (MANUAL, PRESET_MANUAL),
      (GEOFENCING, PRESET_GEOFENCING),
      (FROST_PROTECTION, PRESET_FROST_GUARD)]"

definition REVERSE_PRESET_MAPPING :: "const \<Rightarrow> (string, TargetMode) dict" where
  "REVERSE_PRESET_MAPPING K =
     dict_of_items (map (\<lambda>(k, v). (v, k)) (dict_items (PRESETS_MAPPING K)))"

definition HVAC_MODES_MAPPING :: "const \<Rightarrow> (HvacState, string) dict" where
  "HVAC_MODES_MAPPING K = dict_of_items [(COOL, HVAC_MODE_COOL K), (HEAT, HVAC_MODE_HEAT K)]"

subsection \<open>Properties of \<open>SomfyClimate\<close>\<close>

text \<open>
  A property is a function from the state to its value and the state after the read; the
  state after the read differs from the one before by the getter calls recorded in it.
\<close>

definition supported_features :: "const \<Rightarrow> world \<Rightarrow> int \<times> world" where
  "supported_features K w = (SUPPORT_TARGET_TEMPERATURE K OR SUPPORT_PRESET_MODE K, w)"

definition device_state_attributes :: "const \<Rightarrow> world \<Rightarrow> (string, int option) dict \<times> world" where
  "device_state_attributes K w =
     (let (b, w1) = get_battery w in (dict_of_items [(ATTR_BATTERY_LEVEL K, b)], w1))"

definition temperature_unit :: "const \<Rightarrow> world \<Rightarrow> string \<times> world" where
  "temperature_unit K w = (TEMP_CELSIUS K, w)"

definition current_temperature :: "world \<Rightarrow> py_num \<times> world" where
  "current_temperature w = get_ambient_temperature w"

definition target_temperature :: "world \<Rightarrow> py_num \<times> world" where
  "target_temperature w = get_target_temperature w"

definition max_temp :: "world \<Rightarrow> real \<times> world" where
  "max_temp w = (26.0, w)"

definition min_temp :: "world \<Rightarrow> real \<times> world" where
  "min_temp w = (15.0, w)"

definition current_humidity :: "world \<Rightarrow> py_num \<times> world" where
  "current_humidity w = get_humidity w"

definition hvac_mode :: "const \<Rightarrow> world \<Rightarrow> string option \<times> world" where
  "hvac_mode K w =
     (let (r, w1) = get_regulation_state w in
      if r = TIMETABLE then (Some (HVAC_MODE_AUTO K), w1)
      else let (h, w2) = get_hvac_state w1
           in (Option.bind h (dict_get (HVAC_MODES_MAPPING K)), w2))"

definition hvac_modes :: "const \<Rightarrow> world \<Rightarrow> string option list \<times> world" where
  "hvac_modes K w =
     (let (h, w1) = get_hvac_state w;
          hvac_state = Option.bind h (dict_get (HVAC_MODES_MAPPING K))
      in ([Some (HVAC_MODE_AUTO K), hvac_state], w1))"

definition hvac_action :: "const \<Rightarrow> world \<Rightarrow> py_error + (string \<times> world)" where
  "hvac_action K w =
     (let (c1, w1) = current_temperature w in
      if \<not> py_truthy c1 then Inr (CURRENT_HVAC_IDLE K, w1) else
      let (t1, w2) = target_temperature w1 in
      if \<not> py_truthy t1 then Inr (CURRENT_HVAC_IDLE K, w2) else
      let (m1, w3) = hvac_mode K w2 in
      case (if m1 = Some (HVAC_MODE_HEAT K)
            then (let (c2, w4) = current_temperature w3;
                      (t2, w5) = target_temperature w4
                  in map_sum id (\<lambda>b. (b, w5)) (py_lt c2 t2))
            else Inr (False, w3)) of
        Inl e \<Rightarrow> Inl e
      | Inr (heating, w6) \<Rightarrow>
          if heating then Inr (CURRENT_HVAC_HEAT K, w6) else
          let (m2, w7) = hvac_mode K w6 in
          case (if m2 = Some (HVAC_MODE_COOL K)
                then (let (c3, w8) = current_temperature w7;
                          (t3, w9) = target_temperature w8
                      in map_sum id (\<lambda>b. (b, w9)) (py_gt c3 t3))
                else Inr (False, w7)) of
            Inl e \<Rightarrow> Inl e
          | Inr (cooling, w10) \<Rightarrow>
              if cooling then Inr (CURRENT_HVAC_COOL K, w10)
              else Inr (CURRENT_HVAC_IDLE K, w10))"

definition preset_mode :: "const \<Rightarrow> world \<Rightarrow> string option \<times> world" where
  "preset_mode K w =
     (let (mode, w1) = get_target_mode w
      in (Option.bind mode (dict_get (PRESETS_MAPPING K)), w1))"

definition preset_modes :: "const \<Rightarrow> world \<Rightarrow> string list \<times> world" where
  "preset_modes K w = (dict_values (PRESETS_MAPPING K), w)"

subsection \<open>Methods of \<open>SomfyClimate\<close>\<close>

text \<open>
  \<open>kwargs\<close> maps a keyword to the value passed for it; \<open>kwargs.get\<close> yields
  \<open>None\<close> for an absent keyword as well as for one passed as \<open>None\<close>.
\<close>

definition set_temperature :: "const \<Rightarrow> vendor \<Rightarrow> (string, py_num) dict \<Rightarrow> world \<Rightarrow> world" where
  "set_temperature K V kwargs w =
     (let temperature = (case dict_get kwargs (ATTR_TEMPERATURE K) of None \<Rightarrow> None | Some v \<Rightarrow> v) in
      if temperature = None then w
      else set_target V MANUAL temperature NEXT_MODE w)"

definition set_hvac_mode :: "const \<Rightarrow> vendor \<Rightarrow> string \<Rightarrow> world \<Rightarrow> world" where
  "set_hvac_mode K V hvac_mode_arg w =
     (let (current, w1) = hvac_mode K w in
      if Some hvac_mode_arg = current then w1
      else if hvac_mode_arg = HVAC_MODE_AUTO K then cancel_target V w1
      else let (t, w2) = target_temperature w1
           in set_target V MANUAL t FURTHER_NOTICE w2)"

definition set_preset_mode :: "const \<Rightarrow> vendor \<Rightarrow> string \<Rightarrow> world \<Rightarrow> py_error + world" where
  "set_preset_mode K V preset w =
     (let (current, w1) = preset_mode K w in
      if current = Some preset then Inr w1
      else
        case (if preset = PRESET_HOME K then Some (get_at_home_temperature w1)
              else if preset = PRESET_AWAY K then Some (get_away_temperature w1)
              else if preset = PRESET_SLEEP K then Some (get_night_temperature w1)
              else if preset = PRESET_FROST_GUARD then Some (get_frost_protection_temperature w1)
              else if preset \<in> set [PRESET_MANUAL, PRESET_GEOFENCING] then Some (target_temperature w1)
              else None) of
          None \<Rightarrow> Inr (LOGGER_error ''Preset mode not supported: %s'' preset w1)
        | Some (temperature, w2) \<Rightarrow>
            (case dict_subscript (REVERSE_PRESET_MAPPING K) preset of
               Inl e \<Rightarrow> Inl e
             | Inr mode \<Rightarrow> Inr (set_target V mode temperature NEXT_MODE w2)))"

subsection \<open>Observing a run\<close>

text \<open>
  The calls a run from \<open>w\<close> to \<open>w'\<close> added to the trace, whether the old trace is
  still its beginning, and the commands (\<open>set_target\<close>, \<open>cancel_target\<close>) among the
  added calls.
\<close>

definition new_calls :: "world \<Rightarrow> world \<Rightarrow> vendor_call list" where
  "new_calls w w' = drop (length (calls w)) (calls w')"

definition extends :: "world \<Rightarrow> world \<Rightarrow> bool" where
  "extends w w' = (take (length (calls w)) (calls w') = calls w)"

definition commands :: "world \<Rightarrow> world \<Rightarrow> vendor_call list" where
  "commands w w' = filter is_command (new_calls w w')"

definition reads_only :: "world \<Rightarrow> world \<Rightarrow> bool" where
  "reads_only w w' =
     (device w' = device w \<and> logged w' = logged w \<and> extends w w' \<and> commands w w' = [])"

definition reads :: "vendor_call list \<Rightarrow> world \<Rightarrow> world" where
  "reads cs w = w\<lparr>calls := calls w @ cs\<rparr>"

definition hvac_mode_value :: "const \<Rightarrow> thermostat \<Rightarrow> string option" where
  "hvac_mode_value K th =
     (if th_regulation_state th = TIMETABLE then Some (HVAC_MODE_AUTO K)
      else Option.bind (th_hvac_state th) (dict_get (HVAC_MODES_MAPPING K)))"

definition hvac_mode_calls :: "thermostat \<Rightarrow> vendor_call list" where
  "hvac_mode_calls th =
     (if th_regulation_state th = TIMETABLE then [Get_regulation_state]
      else [Get_regulation_state, Get_hvac_state])"

subsection \<open>Concrete devices for running the model\<close>

definition th_example :: thermostat where
  "th_example =
     \<lparr>th_battery = Some 80, th_ambient_temperature = Some 19.5, th_target_temperature = Some 21,
      th_humidity = Some 40, th_regulation_state = DEROGATION, th_hvac_state = Some HEAT,
      th_target_mode = Some AT_HOME, th_at_home_temperature = Some 21,
      th_away_temperature = Some 17, th_night_temperature = Some 18,
      th_frost_protection_temperature = Some 8\<rparr>"

definition w_example :: world where
  "w_example = \<lparr>device = th_example, calls = [], logged = []\<rparr>"

text \<open>A device that reports neither a schedule nor a heating or cooling state.\<close>

definition w_no_hvac :: world where
  "w_no_hvac = \<lparr>device = th_example\<lparr>th_hvac_state := None\<rparr>, calls = [], logged = []\<rparr>"

text \<open>A vendor whose \<open>set_target\<close> makes \<open>get_target_mode\<close> return the mode set.\<close>

definition V_follow :: vendor where
  "V_follow =
     \<lparr>on_set_target = (\<lambda>m t d th. th\<lparr>th_target_mode := Some m, th_target_temperature := t\<rparr>),
      on_cancel_target = (\<lambda>th. th\<lparr>th_regulation_state := TIMETABLE\<rparr>)\<rparr>"

subsection \<open>Construction of the preset tables\<close>

text \<open>
  What executing lines 42-50 does when the module is imported: the dictionary display stores
  its six items, then the comprehension stores one reversed item for each item of the table
  just built.  The third kind of step follows the spec's words (a table "validated at
  construction time for completeness and uniqueness"); \<open>climate.py\<close> has no statement of
  that kind.
\<close>

datatype construction_step =
    Store_preset TargetMode string
  | Store_reverse string TargetMode
  | Validate_tables

type_synonym tables = "(TargetMode, string) dict \<times> (string, TargetMode) dict"

text \<open>Following the spec's words: the table is complete (every mode has a name) and
  unique (no name is given to two modes).\<close>

definition tables_valid :: "tables \<Rightarrow> bool" where
  "tables_valid t =
     (list_all (\<lambda>m. dict_get (fst t) m \<noteq> None)
        [AT_HOME, AWAY, SLEEP, MANUAL, GEOFENCING, FROST_PROTECTION] \<and>
      distinct (dict_values (fst t)))"

text \<open>A store never fails; a validation step fails (\<open>None\<close>) on a table that is not valid.\<close>

fun run_step :: "construction_step \<Rightarrow> tables \<Rightarrow> tables option" where
  "run_step (Store_preset k v) t = Some (dict_set k v (fst t), snd t)"
| "run_step (Store_reverse v k) t = Some (fst t, dict_set v k (snd t))"
| "run_step Validate_tables t = (if tables_valid t then Some t else None)"

fun run_steps :: "construction_step list \<Rightarrow> tables \<Rightarrow> tables option" where
  "run_steps [] t = Some t"
| "run_steps (s # ss) t = (case run_step s t of None \<Rightarrow> None | Some t' \<Rightarrow> run_steps ss t')"

definition module_construction :: "const \<Rightarrow> construction_step list" where
  "module_construction K =
     map (\<lambda>(k, v). Store_preset k v)
       [(AT_HOME, PRESET_HOME K),
        (AWAY, PRESET_AWAY K),
        (SLEEP, PRESET_SLEEP K),
        (MANUAL, PRESET_MANUAL),
        (GEOFENCING, PRESET_GEOFENCING),
        (FROST_PROTECTION, PRESET_FROST_GUARD)] @
     map (\<lambda>(k, v). Store_reverse v k) (dict_items (PRESETS_MAPPING K))"

section \<open>The devolo Home Control binary sensors\<close>

text \<open>
  The binary-sensor platform of \<open>devolo_home_control\<close> and its entity base class are not
  among the files at hand; only \<open>test_binary_sensor.py\<close> is.  The definitions of this
  section are therefore written from the specification (sections 3, 4.2, 6 and 8) and from
  what the test does.
\<close>

text \<open>Modelled from the spec: the three entity states the test compares against
  (\<open>STATE_ON\<close>, \<open>STATE_OFF\<close>, \<open>STATE_UNAVAILABLE\<close> of \<open>homeassistant.const\<close>).\<close>

datatype entity_state = STATE_ON | STATE_OFF | STATE_UNAVAILABLE

text \<open>Modelled from the spec: a notification is a tuple of a signal name and payload
  values, as in \<open>("Test", True)\<close>, \<open>("Test", 1)\<close> and \<open>("Status", False, "status")\<close>.\<close>

datatype payload = PBool bool | PInt int | PStr string

type_synonym message = "string \<times> payload list"

text \<open>Modelled from the spec: a zero payload is off, a non-zero payload is on
  (truthiness of the reported value).\<close>

fun payload_truthy :: "payload \<Rightarrow> bool" where
  "payload_truthy (PBool b) = b"
| "payload_truthy (PInt n) = (n \<noteq> 0)"
| "payload_truthy (PStr s) = (s \<noteq> [])"

text \<open>Modelled from the spec: the device behind an entity holds an identifier and a
  status code (0 online, 1 offline).\<close>

record devolo_device =
  device_uid :: string
  status :: int

text \<open>Modelled from the spec: a binary-sensor entity and a remote-control button entity;
  both keep the last value reported for their element.\<close>

datatype entity_kind = BINARY_SENSOR | REMOTE_CONTROL

record devolo_entity =
  kind :: entity_kind
  element_uid :: string
  is_on :: bool

text \<open>Modelled from the spec: a notification whose signal name is the entity's element
  carries a new value (a sensor reading, or a button pressed / released); any other
  notification, such as the status notification, leaves the last value as it is.\<close>

fun sync :: "message \<Rightarrow> devolo_entity \<Rightarrow> devolo_entity" where
  "sync (name, p # ps) e = (if name = element_uid e then e\<lparr>is_on := payload_truthy p\<rparr> else e)"
| "sync (name, []) e = e"

text \<open>Modelled from the spec: status code 1 forces the state \<open>unavailable\<close>; status code 0
  enables on/off reporting of the last value.  The spec names no other status code, so the
  model gives no state for one.\<close>

definition entity_state :: "devolo_device \<Rightarrow> devolo_entity \<Rightarrow> entity_state option" where
  "entity_state dev e =
     (if status dev = 1 then Some STATE_UNAVAILABLE
      else if status dev = 0 then Some (if is_on e then STATE_ON else STATE_OFF)
      else None)"

text \<open>The sensor and the button of the test, as they are after setup.\<close>

definition test_door :: devolo_entity where
  "test_door = \<lparr>kind = BINARY_SENSOR, element_uid = ''Test'', is_on = False\<rparr>"

definition test_button_1 :: devolo_entity where
  "test_button_1 = \<lparr>kind = REMOTE_CONTROL, element_uid = ''Test'', is_on = False\<rparr>"

definition test_device :: devolo_device where
  "test_device = \<lparr>device_uid = ''Test'', status = 0\<rparr>"

subsection \<open>Subscriptions\<close>













section \<open>Facts about the model\<close>

lemma device_called [simp]: "device (called c w) = device w"
  by (simp add: called_def)

lemma logged_called [simp]: "logged (called c w) = logged w"
  by (simp add: called_def)

lemma calls_called [simp]: "calls (called c w) = calls w @ [c]"
  by (simp add: called_def)

lemma device_set_target [simp]: "device (set_target V m t d w) = on_set_target V m t d (device w)"
  by (simp add: set_target_def)

lemma reads_simps [simp]:
  "device (reads cs w) = device w" "logged (reads cs w) = logged w"
  "calls (reads cs w) = calls w @ cs" "reads cs (reads ds w) = reads (ds @ cs) w"
  "called c (reads ds w) = reads (ds @ [c]) w"
  by (simp_all add: reads_def called_def)

lemma called_reads: "called c w = reads [c] w"
  by (simp add: reads_def called_def)

lemma reads_only_reads: "filter is_command cs = [] \<Longrightarrow> reads_only w (reads cs w)"
  by (simp add: reads_only_def extends_def commands_def new_calls_def)

lemma reads_only_refl: "reads_only w w"
  by (simp add: reads_only_def extends_def commands_def new_calls_def)

lemma current_temperature_eq:
  "current_temperature w = (th_ambient_temperature (device w), called Get_ambient_temperature w)"
  by (simp add: current_temperature_def get_ambient_temperature_def)

lemma target_temperature_eq:
  "target_temperature w = (th_target_temperature (device w), called Get_target_temperature w)"
  by (simp add: target_temperature_def get_target_temperature_def)

lemma hvac_mode_eq:
  "hvac_mode K w = (hvac_mode_value K (device w), reads (hvac_mode_calls (device w)) w)"
  by (simp add: hvac_mode_def hvac_mode_value_def hvac_mode_calls_def get_regulation_state_def
      get_hvac_state_def called_reads)

lemma preset_mode_eq:
  "preset_mode K w =
     (Option.bind (th_target_mode (device w)) (dict_get (PRESETS_MAPPING K)),
      called Get_target_mode w)"
  by (simp add: preset_mode_def get_target_mode_def)

lemmas preset_getter_defs = get_at_home_temperature_def get_away_temperature_def
  get_night_temperature_def get_frost_protection_temperature_def target_temperature_def
  get_target_temperature_def

lemmas preset_name_defs = PRESET_FROST_GUARD_def PRESET_GEOFENCING_def PRESET_MANUAL_def

lemmas example_defs = K_platform_def th_example_def w_example_def w_no_hvac_def
  V_follow_def

subsection \<open>Dictionaries\<close>

lemma map_of_dict_set: "map_of (dict_set k v d) = (map_of d)(k \<mapsto> v)"
  by (induction d) (auto simp: fun_eq_iff)

lemma map_of_fold_dict_set:
  "map_of (fold (\<lambda>(k, v) d. dict_set k v d) kvs d) = map_of d ++ map_of (rev kvs)"
proof (induction kvs arbitrary: d)
  case Nil
  then show ?case by simp
next
  case (Cons p kvs)
  obtain k v where p: "p = (k, v)" by (cases p)
  have "map_of (dict_set k v d) ++ map_of (rev kvs) = map_of d ++ map_of (rev kvs @ [(k, v)])"
    by (simp add: map_of_dict_set map_add_def fun_eq_iff split: option.splits)
  with Cons show ?case by (simp add: p)
qed

lemma dict_get_dict_of_items: "dict_get (dict_of_items kvs) k = map_of (rev kvs) k"
  by (simp add: dict_get_def dict_of_items_def map_of_fold_dict_set)

lemma reverse_lookup:
  assumes "distinct (map fst d)" and "n \<in> snd ` set d"
  shows "\<exists>m. dict_get (dict_of_items (map (\<lambda>(k, v). (v, k)) (dict_items d))) n = Some m \<and>
             dict_get d m = Some n"
proof -
  let ?r = "rev (map (\<lambda>(k, v). (v, k)) d)"
  have "n \<in> fst ` set ?r" using assms(2) by force
  then obtain m where m: "map_of ?r n = Some m"
    by (cases "map_of ?r n") (auto simp: map_of_eq_None_iff)
  then have "(n, m) \<in> set ?r" by (rule map_of_SomeD)
  then have "(m, n) \<in> set d" by auto
  with assms(1) have "dict_get d m = Some n" by (simp add: dict_get_def)
  moreover from m
  have "dict_get (dict_of_items (map (\<lambda>(k, v). (v, k)) (dict_items d))) n = Some m"
    by (simp add: dict_get_dict_of_items dict_items_def)
  ultimately show ?thesis by blast
qed

lemma PRESETS_MAPPING_items:
  "PRESETS_MAPPING K =
     [(AT_HOME, PRESET_HOME K), (AWAY, PRESET_AWAY K), (SLEEP, PRESET_SLEEP K),
      (MANUAL, PRESET_MANUAL), (GEOFENCING, PRESET_GEOFENCING),
      (FROST_PROTECTION, PRESET_FROST_GUARD)]"
  by (simp add: PRESETS_MAPPING_def dict_of_items_def)

lemma HVAC_MODES_MAPPING_items:
  "HVAC_MODES_MAPPING K = [(COOL, HVAC_MODE_COOL K), (HEAT, HVAC_MODE_HEAT K)]"
  by (simp add: HVAC_MODES_MAPPING_def dict_of_items_def)

lemma preset_lookup:
  assumes "P \<in> {PRESET_HOME K, PRESET_AWAY K, PRESET_SLEEP K, PRESET_FROST_GUARD,
      PRESET_MANUAL, PRESET_GEOFENCING}"
  shows "\<exists>m. dict_subscript (REVERSE_PRESET_MAPPING K) P = Inr m \<and>
             dict_get (PRESETS_MAPPING K) m = Some P"
proof -
  have d: "distinct (map fst (PRESETS_MAPPING K))" by (simp add: PRESETS_MAPPING_items)
  have "P \<in> snd ` set (PRESETS_MAPPING K)" using assms by (auto simp: PRESETS_MAPPING_items)
  from reverse_lookup [OF d this] obtain m where
    "dict_get (REVERSE_PRESET_MAPPING K) P = Some m" "dict_get (PRESETS_MAPPING K) m = Some P"
    by (auto simp: REVERSE_PRESET_MAPPING_def)
  then show ?thesis by (auto simp: dict_subscript_def dict_get_def)
qed

section \<open>Claims about the thermostat adapter\<close>

text \<open>
  C5.  \<open>set_temperature\<close> does nothing at all when \<open>kwargs\<close> carries no temperature
  (the keyword is absent, or passed as \<open>None\<close>); when a temperature \<open>t\<close> is passed, the
  only call it makes on the vendor device is one \<open>set_target(MANUAL, t, NEXT_MODE)\<close>.
\<close>

theorem set_temperature_spec:
  "(dict_get kwargs (ATTR_TEMPERATURE K) \<in> {None, Some None} \<longrightarrow>
      set_temperature K V kwargs w = w) \<and>
   (dict_get kwargs (ATTR_TEMPERATURE K) = Some (Some t) \<longrightarrow>
      calls (set_temperature K V kwargs w) = calls w @ [Set_target MANUAL (Some t) NEXT_MODE] \<and>
      logged (set_temperature K V kwargs w) = logged w)"
  by (auto simp: set_temperature_def set_target_def called_def Let_def)

theorem set_temperature_spec_witness:
  "dict_get [] (ATTR_TEMPERATURE K_platform) \<in> {None, Some None} \<and>
   set_temperature K_platform V_follow [] w_example = w_example \<and>
   dict_get [(''temperature'', Some 20)] (ATTR_TEMPERATURE K_platform) = Some (Some 20) \<and>
   calls (set_temperature K_platform V_follow [(''temperature'', Some 20)] w_example) =
     calls w_example @ [Set_target MANUAL (Some 20) NEXT_MODE]"
  using set_temperature_spec [of "[]" K_platform V_follow w_example 20]
    set_temperature_spec [of "[(''temperature'', Some 20)]" K_platform V_follow w_example 20]
  by (simp add: dict_get_def K_platform_def)

text \<open>
  C4.  \<open>set_hvac_mode(m)\<close> issues no command when \<open>m\<close> is the current \<open>hvac_mode\<close>;
  otherwise it issues exactly \<open>cancel_target()\<close> when \<open>m\<close> is \<open>HVAC_MODE_AUTO\<close>, and
  exactly \<open>set_target(MANUAL, target_temperature, FURTHER_NOTICE)\<close> for any other \<open>m\<close>.
\<close>

theorem set_hvac_mode_spec:
  "extends w (set_hvac_mode K V m w) \<and>
   (fst (hvac_mode K w) = Some m \<longrightarrow> commands w (set_hvac_mode K V m w) = []) \<and>
   (fst (hvac_mode K w) \<noteq> Some m \<and> m = HVAC_MODE_AUTO K \<longrightarrow>
      commands w (set_hvac_mode K V m w) = [Cancel_target]) \<and>
   (fst (hvac_mode K w) \<noteq> Some m \<and> m \<noteq> HVAC_MODE_AUTO K \<longrightarrow>
      commands w (set_hvac_mode K V m w) =
        [Set_target MANUAL (fst (target_temperature w)) FURTHER_NOTICE])"
  by (auto simp: set_hvac_mode_def hvac_mode_eq hvac_mode_calls_def target_temperature_eq
      set_target_def cancel_target_def called_def reads_def commands_def new_calls_def
      extends_def)

theorem set_hvac_mode_spec_witness:
  "fst (hvac_mode K_platform w_example) = Some ''heat'' \<and>
   commands w_example (set_hvac_mode K_platform V_follow ''heat'' w_example) = [] \<and>
   ''auto'' = HVAC_MODE_AUTO K_platform \<and>
   commands w_example (set_hvac_mode K_platform V_follow ''auto'' w_example) = [Cancel_target] \<and>
   ''cool'' \<noteq> HVAC_MODE_AUTO K_platform \<and>
   commands w_example (set_hvac_mode K_platform V_follow ''cool'' w_example) =
     [Set_target MANUAL (Some 21) FURTHER_NOTICE]"
  using set_hvac_mode_spec [of w_example K_platform V_follow "''heat''"]
    set_hvac_mode_spec [of w_example K_platform V_follow "''auto''"]
    set_hvac_mode_spec [of w_example K_platform V_follow "''cool''"]
  by (simp add: hvac_mode_eq hvac_mode_value_def HVAC_MODES_MAPPING_items dict_get_def
      target_temperature_eq example_defs)

text \<open>
  C9.  When the regulation state is not \<open>TIMETABLE\<close> and the vendor's hvac state is neither
  \<open>COOL\<close> nor \<open>HEAT\<close>, the property \<open>hvac_mode\<close> yields \<open>None\<close> (it has no raising
  path), and \<open>hvac_modes\<close> yields the two-element list \<open>[HVAC_MODE_AUTO, None]\<close>.
\<close>

theorem hvac_mode_none:
  assumes "th_regulation_state (device w) \<noteq> TIMETABLE"
    and "th_hvac_state (device w) \<noteq> Some COOL" and "th_hvac_state (device w) \<noteq> Some HEAT"
  shows "fst (hvac_mode K w) = None \<and> fst (hvac_modes K w) = [Some (HVAC_MODE_AUTO K), None]"
proof -
  have "th_hvac_state (device w) = None"
  proof (cases "th_hvac_state (device w)")
    case None
    then show ?thesis .
  next
    case (Some h)
    with assms(2,3) show ?thesis by (cases h) simp_all
  qed
  with assms(1) show ?thesis
    by (simp add: hvac_mode_eq hvac_mode_value_def hvac_modes_def get_hvac_state_def)
qed

theorem hvac_mode_none_witness:
  "th_regulation_state (device w_no_hvac) \<noteq> TIMETABLE \<and>
   th_hvac_state (device w_no_hvac) \<noteq> Some COOL \<and>
   th_hvac_state (device w_no_hvac) \<noteq> Some HEAT \<and>
   fst (hvac_mode K_platform w_no_hvac) = None \<and>
   fst (hvac_modes K_platform w_no_hvac) = [Some ''auto'', None]"
  using hvac_mode_none [of w_no_hvac K_platform]
  by (simp add: example_defs)

subsection \<open>\<open>set_preset_mode\<close>\<close>

lemma set_preset_mode_supported:
  assumes cur: "fst (preset_mode K w) \<noteq> Some P"
    and P: "P \<in> {PRESET_HOME K, PRESET_AWAY K, PRESET_SLEEP K, PRESET_FROST_GUARD,
      PRESET_MANUAL, PRESET_GEOFENCING}"
    and m: "dict_subscript (REVERSE_PRESET_MAPPING K) P = Inr m"
  shows "\<exists>t w2. set_preset_mode K V P w = Inr (set_target V m t NEXT_MODE w2)"
proof -
  define w1 where "w1 = called Get_target_mode w"
  define sel where "sel =
     (if P = PRESET_HOME K then Some (get_at_home_temperature w1)
      else if P = PRESET_AWAY K then Some (get_away_temperature w1)
      else if P = PRESET_SLEEP K then Some (get_night_temperature w1)
      else if P = PRESET_FROST_GUARD then Some (get_frost_protection_temperature w1)
      else if P \<in> set [PRESET_MANUAL, PRESET_GEOFENCING] then Some (target_temperature w1)
      else None)"
  have "\<exists>t w2. sel = Some (t, w2)"
    using P unfolding sel_def w1_def preset_getter_defs by auto
  then obtain t w2 where sel: "sel = Some (t, w2)"
    by blast
  have "set_preset_mode K V P w =
      (case sel of
         None \<Rightarrow> Inr (LOGGER_error ''Preset mode not supported: %s'' P w1)
       | Some (temperature, w2) \<Rightarrow>
           (case dict_subscript (REVERSE_PRESET_MAPPING K) P of
              Inl e \<Rightarrow> Inl e
            | Inr mode \<Rightarrow> Inr (set_target V mode temperature NEXT_MODE w2)))"
    using cur unfolding sel_def w1_def set_preset_mode_def preset_mode_eq by simp
  with sel m have "set_preset_mode K V P w = Inr (set_target V m t NEXT_MODE w2)"
    by simp
  then show ?thesis by blast
qed

lemma active_preset_is_recognized:
  assumes "fst (preset_mode K w) = Some P"
  shows "P \<in> {PRESET_HOME K, PRESET_AWAY K, PRESET_SLEEP K, PRESET_FROST_GUARD,
      PRESET_MANUAL, PRESET_GEOFENCING}"
proof (cases "th_target_mode (device w)")
  case None
  with assms show ?thesis by (simp add: preset_mode_eq)
next
  case (Some m)
  with assms show ?thesis
    by (cases m) (auto simp: preset_mode_eq PRESETS_MAPPING_items dict_get_def)
qed

text \<open>
  C1.  For a preset name that is none of the six recognized ones (such a name always
  differs from the active preset, see \<open>active_preset_is_recognized\<close>),
  \<open>set_preset_mode\<close> returns normally, appends exactly one error entry to the log, issues
  no command, leaves the device as it is, and \<open>preset_mode\<close> reads as before.
\<close>

theorem set_preset_mode_unsupported:
  assumes "preset \<notin> {PRESET_HOME K, PRESET_AWAY K, PRESET_SLEEP K, PRESET_FROST_GUARD,
      PRESET_MANUAL, PRESET_GEOFENCING}"
  shows "\<exists>w'. set_preset_mode K V preset w = Inr w' \<and>
      logged w' = logged w @ [LogError ''Preset mode not supported: %s'' preset] \<and>
      extends w w' \<and> commands w w' = [] \<and> device w' = device w \<and>
      fst (preset_mode K w') = fst (preset_mode K w)"
proof -
  have "fst (preset_mode K w) \<noteq> Some preset"
    using assms active_preset_is_recognized [of K w preset] by blast
  with assms have "set_preset_mode K V preset w =
      Inr (LOGGER_error ''Preset mode not supported: %s'' preset (called Get_target_mode w))"
    by (simp add: set_preset_mode_def preset_mode_eq)
  then show ?thesis
    by (simp add: LOGGER_error_def extends_def commands_def new_calls_def preset_mode_eq)
qed

theorem set_preset_mode_unsupported_witness:
  "''eco'' \<notin> {PRESET_HOME K_platform, PRESET_AWAY K_platform, PRESET_SLEEP K_platform,
      PRESET_FROST_GUARD, PRESET_MANUAL, PRESET_GEOFENCING} \<and>
   (\<exists>w'. set_preset_mode K_platform V_follow ''eco'' w_example = Inr w' \<and>
      logged w' = logged w_example @ [LogError ''Preset mode not supported: %s'' ''eco''] \<and>
      extends w_example w' \<and> commands w_example w' = [] \<and> device w' = device w_example \<and>
      fst (preset_mode K_platform w') = fst (preset_mode K_platform w_example))"
  using set_preset_mode_unsupported [of "''eco''" K_platform V_follow w_example]
  by (simp add: K_platform_def preset_name_defs)

text \<open>
  C2.  Under a vendor whose \<open>set_target(mode, temperature, duration)\<close> makes
  \<open>get_target_mode\<close> return that mode, \<open>set_preset_mode(P)\<close> for any of the six preset
  names \<open>P\<close> returns normally, and \<open>preset_mode\<close> read afterwards is \<open>P\<close>.
\<close>

theorem set_preset_mode_roundtrip:
  assumes V: "\<forall>m t d th. th_target_mode (on_set_target V m t d th) = Some m"
    and P: "P \<in> set (dict_values (PRESETS_MAPPING K))"
  shows "\<exists>w'. set_preset_mode K V P w = Inr w' \<and> fst (preset_mode K w') = Some P"
proof (cases "fst (preset_mode K w) = Some P")
  case True
  then have "set_preset_mode K V P w = Inr (called Get_target_mode w)"
    by (simp add: set_preset_mode_def preset_mode_eq)
  moreover from True have "fst (preset_mode K (called Get_target_mode w)) = Some P"
    by (simp add: preset_mode_eq)
  ultimately show ?thesis by blast
next
  case False
  from P have P': "P \<in> {PRESET_HOME K, PRESET_AWAY K, PRESET_SLEEP K, PRESET_FROST_GUARD,
      PRESET_MANUAL, PRESET_GEOFENCING}"
    by (auto simp: PRESETS_MAPPING_items dict_values_def)
  from preset_lookup [OF P'] obtain m where
    m: "dict_subscript (REVERSE_PRESET_MAPPING K) P = Inr m"
      "dict_get (PRESETS_MAPPING K) m = Some P"
    by blast
  from set_preset_mode_supported [OF False P' m(1)] obtain t w2 where
    r: "set_preset_mode K V P w = Inr (set_target V m t NEXT_MODE w2)" by blast
  have "fst (preset_mode K (set_target V m t NEXT_MODE w2)) = Some P"
    using V m(2) by (simp add: preset_mode_eq)
  with r show ?thesis by blast
qed

theorem set_preset_mode_roundtrip_witness:
  "(\<forall>m t d th. th_target_mode (on_set_target V_follow m t d th) = Some m) \<and>
   ''Frost Guard'' \<in> set (dict_values (PRESETS_MAPPING K_platform)) \<and>
   (\<exists>w'. set_preset_mode K_platform V_follow ''Frost Guard'' w_example = Inr w' \<and>
      fst (preset_mode K_platform w') = Some ''Frost Guard'')"
  using set_preset_mode_roundtrip [of V_follow "''Frost Guard''" K_platform w_example]
  by (simp add: V_follow_def PRESETS_MAPPING_items dict_values_def preset_name_defs)

subsection \<open>\<open>hvac_action\<close>\<close>

lemma hvac_action_falsy:
  assumes "\<not> py_truthy (fst (current_temperature w)) \<or> \<not> py_truthy (fst (target_temperature w))"
  shows "\<exists>cs. hvac_action K w = Inr (CURRENT_HVAC_IDLE K, reads cs w) \<and> filter is_command cs = []"
proof (cases "py_truthy (fst (current_temperature w))")
  case False
  then have "hvac_action K w = Inr (CURRENT_HVAC_IDLE K, reads [Get_ambient_temperature] w)"
    by (simp add: hvac_action_def current_temperature_eq called_reads)
  then show ?thesis by force
next
  case True
  with assms have "hvac_action K w =
      Inr (CURRENT_HVAC_IDLE K, reads [Get_ambient_temperature, Get_target_temperature] w)"
    by (simp add: hvac_action_def current_temperature_eq target_temperature_eq called_reads)
  then show ?thesis by force
qed

lemma hvac_action_present:
  assumes c: "fst (current_temperature w) = Some c" "c \<noteq> 0"
    and t: "fst (target_temperature w) = Some t" "t \<noteq> 0"
  shows "\<exists>cs. hvac_action K w =
      Inr (if fst (hvac_mode K w) = Some (HVAC_MODE_HEAT K) \<and> c < t then CURRENT_HVAC_HEAT K
           else if fst (hvac_mode K w) = Some (HVAC_MODE_COOL K) \<and> c > t then CURRENT_HVAC_COOL K
           else CURRENT_HVAC_IDLE K, reads cs w) \<and> filter is_command cs = []"
proof -
  let ?m = "hvac_mode_value K (device w)"
  let ?h = "hvac_mode_calls (device w)"
  let ?ct = "[Get_ambient_temperature, Get_target_temperature]"
  have h: "filter is_command ?h = []" by (simp add: hvac_mode_calls_def)
  from c t have ct: "th_ambient_temperature (device w) = Some c"
      "th_target_temperature (device w) = Some t"
    by (simp_all add: current_temperature_eq target_temperature_eq)
  consider (heat) "?m = Some (HVAC_MODE_HEAT K)" "c < t"
    | (heat_no) "?m = Some (HVAC_MODE_HEAT K)" "\<not> c < t"
    | (other) "?m \<noteq> Some (HVAC_MODE_HEAT K)"
    by blast
  then show ?thesis
  proof cases
    case heat
    with c(2) t(2) ct have "hvac_action K w = Inr (CURRENT_HVAC_HEAT K, reads (?ct @ ?h @ ?ct) w)"
      by (simp add: hvac_action_def current_temperature_eq target_temperature_eq hvac_mode_eq
          called_reads)
    with heat h show ?thesis
      by (intro exI [of _ "?ct @ ?h @ ?ct"]) (simp add: hvac_mode_eq)
  next
    case heat_no
    show ?thesis
    proof (cases "?m = Some (HVAC_MODE_COOL K)")
      case True
      with heat_no c(2) t(2) ct have "hvac_action K w =
        Inr (if c > t then CURRENT_HVAC_COOL K else CURRENT_HVAC_IDLE K,
             reads (?ct @ ?h @ ?ct @ ?h @ ?ct) w)"
        by (simp add: hvac_action_def current_temperature_eq target_temperature_eq hvac_mode_eq
            called_reads)
      with heat_no True h show ?thesis
        by (intro exI [of _ "?ct @ ?h @ ?ct @ ?h @ ?ct"]) (simp add: hvac_mode_eq)
    next
      case False
      with heat_no c(2) t(2) ct have "hvac_action K w =
        Inr (CURRENT_HVAC_IDLE K, reads (?ct @ ?h @ ?ct @ ?h) w)"
        by (simp add: hvac_action_def current_temperature_eq target_temperature_eq hvac_mode_eq
            called_reads)
      with heat_no False h show ?thesis
        by (intro exI [of _ "?ct @ ?h @ ?ct @ ?h"]) (simp add: hvac_mode_eq)
    qed
  next
    case other
    show ?thesis
    proof (cases "?m = Some (HVAC_MODE_COOL K)")
      case True
      with other c(2) t(2) ct have "hvac_action K w =
        Inr (if c > t then CURRENT_HVAC_COOL K else CURRENT_HVAC_IDLE K,
             reads (?ct @ ?h @ ?h @ ?ct) w)"
        by (simp add: hvac_action_def current_temperature_eq target_temperature_eq hvac_mode_eq
            called_reads)
      with other True h show ?thesis
        by (intro exI [of _ "?ct @ ?h @ ?h @ ?ct"]) (simp add: hvac_mode_eq)
    next
      case False
      with other c(2) t(2) ct have "hvac_action K w =
        Inr (CURRENT_HVAC_IDLE K, reads (?ct @ ?h @ ?h) w)"
        by (simp add: hvac_action_def current_temperature_eq target_temperature_eq hvac_mode_eq
            called_reads)
      with other False h show ?thesis
        by (intro exI [of _ "?ct @ ?h @ ?h"]) (simp add: hvac_mode_eq)
    qed
  qed
qed

lemma hvac_action_returns:
  "\<exists>a cs. hvac_action K w = Inr (a, reads cs w) \<and> filter is_command cs = []"
proof (cases "py_truthy (fst (current_temperature w)) \<and> py_truthy (fst (target_temperature w))")
  case False
  then show ?thesis using hvac_action_falsy [of w K] by blast
next
  case True
  then obtain c t where "fst (current_temperature w) = Some c" "c \<noteq> 0"
      "fst (target_temperature w) = Some t" "t \<noteq> 0"
    by (cases "fst (current_temperature w)"; cases "fst (target_temperature w)") auto
  from hvac_action_present [OF this, of K] show ?thesis by blast
qed

text \<open>
  C3.  \<open>hvac_action\<close> always returns (the comparison with \<open>None\<close> is never reached).
  It returns idle when the current or the target temperature is \<open>None\<close> or zero.  When both
  are present and non-zero it returns heat exactly when \<open>hvac_mode\<close> is heat and current is
  below target, cool exactly when \<open>hvac_mode\<close> is cool and current is above target, and idle
  exactly in the remaining cases.  (The three action names are taken to be different strings.)
\<close>

theorem hvac_action_spec:
  assumes "distinct [CURRENT_HVAC_HEAT K, CURRENT_HVAC_COOL K, CURRENT_HVAC_IDLE K]"
  shows "\<exists>a w'. hvac_action K w = Inr (a, w') \<and>
     (\<not> py_truthy (fst (current_temperature w)) \<or> \<not> py_truthy (fst (target_temperature w))
        \<longrightarrow> a = CURRENT_HVAC_IDLE K) \<and>
     (\<forall>c t. fst (current_temperature w) = Some c \<and> c \<noteq> 0 \<and>
             fst (target_temperature w) = Some t \<and> t \<noteq> 0 \<longrightarrow>
        (a = CURRENT_HVAC_HEAT K \<longleftrightarrow> fst (hvac_mode K w) = Some (HVAC_MODE_HEAT K) \<and> c < t) \<and>
        (a = CURRENT_HVAC_COOL K \<longleftrightarrow> fst (hvac_mode K w) = Some (HVAC_MODE_COOL K) \<and> c > t) \<and>
        (a = CURRENT_HVAC_IDLE K \<longleftrightarrow>
           \<not> (fst (hvac_mode K w) = Some (HVAC_MODE_HEAT K) \<and> c < t) \<and>
           \<not> (fst (hvac_mode K w) = Some (HVAC_MODE_COOL K) \<and> c > t)))"
proof (cases "py_truthy (fst (current_temperature w)) \<and> py_truthy (fst (target_temperature w))")
  case False
  with hvac_action_falsy [of w K] obtain cs where
    "hvac_action K w = Inr (CURRENT_HVAC_IDLE K, reads cs w)" by blast
  with False show ?thesis by auto
next
  case True
  then obtain c t where ct: "fst (current_temperature w) = Some c" "c \<noteq> 0"
      "fst (target_temperature w) = Some t" "t \<noteq> 0"
    by (cases "fst (current_temperature w)"; cases "fst (target_temperature w)") auto
  from hvac_action_present [OF ct, of K] obtain cs where
    r: "hvac_action K w =
      Inr (if fst (hvac_mode K w) = Some (HVAC_MODE_HEAT K) \<and> c < t then CURRENT_HVAC_HEAT K
           else if fst (hvac_mode K w) = Some (HVAC_MODE_COOL K) \<and> c > t then CURRENT_HVAC_COOL K
           else CURRENT_HVAC_IDLE K, reads cs w)"
    by blast
  show ?thesis
    unfolding r using assms True ct by auto
qed

theorem hvac_action_spec_witness:
  "distinct [CURRENT_HVAC_HEAT K_platform, CURRENT_HVAC_COOL K_platform,
     CURRENT_HVAC_IDLE K_platform] \<and>
   fst (current_temperature w_example) = Some 19.5 \<and>
   fst (target_temperature w_example) = Some 21 \<and>
   fst (hvac_mode K_platform w_example) = Some (HVAC_MODE_HEAT K_platform) \<and>
   (\<exists>w'. hvac_action K_platform w_example = Inr (CURRENT_HVAC_HEAT K_platform, w'))"
proof -
  have d: "distinct [CURRENT_HVAC_HEAT K_platform, CURRENT_HVAC_COOL K_platform,
      CURRENT_HVAC_IDLE K_platform]"
    by (simp add: K_platform_def)
  have c: "fst (current_temperature w_example) = Some 19.5"
    and t: "fst (target_temperature w_example) = Some 21"
    by (simp_all add: current_temperature_eq target_temperature_eq example_defs)
  have m: "fst (hvac_mode K_platform w_example) = Some (HVAC_MODE_HEAT K_platform)"
    by (simp add: hvac_mode_eq hvac_mode_value_def HVAC_MODES_MAPPING_items dict_get_def
        example_defs)
  from hvac_action_spec [OF d, of w_example] obtain a w' where
    r: "hvac_action K_platform w_example = Inr (a, w')"
    and h: "\<forall>c t. fst (current_temperature w_example) = Some c \<and> c \<noteq> 0 \<and>
             fst (target_temperature w_example) = Some t \<and> t \<noteq> 0 \<longrightarrow>
        (a = CURRENT_HVAC_HEAT K_platform \<longleftrightarrow>
           fst (hvac_mode K_platform w_example) = Some (HVAC_MODE_HEAT K_platform) \<and> c < t) \<and>
        (a = CURRENT_HVAC_COOL K_platform \<longleftrightarrow>
           fst (hvac_mode K_platform w_example) = Some (HVAC_MODE_COOL K_platform) \<and> c > t) \<and>
        (a = CURRENT_HVAC_IDLE K_platform \<longleftrightarrow>
           \<not> (fst (hvac_mode K_platform w_example) = Some (HVAC_MODE_HEAT K_platform) \<and> c < t) \<and>
           \<not> (fst (hvac_mode K_platform w_example) = Some (HVAC_MODE_COOL K_platform) \<and> c > t))"
    by (elim exE conjE)
  have "(19.5 :: real) \<noteq> 0 \<and> (21 :: real) \<noteq> 0 \<and> (19.5 :: real) < 21" by simp
  with h [rule_format, of "19.5" 21] c t m have "a = CURRENT_HVAC_HEAT K_platform"
    by blast
  with r d c t m show ?thesis by blast
qed

subsection \<open>Reading properties\<close>

text \<open>
  C10.  Reading any of the thirteen properties makes getter calls only: no
  \<open>set_target\<close> and no \<open>cancel_target\<close> is issued, nothing is logged, and the device is
  as it was.
\<close>

theorem properties_read_only:
  "reads_only w (snd (supported_features K w)) \<and>
   reads_only w (snd (device_state_attributes K w)) \<and>
   reads_only w (snd (temperature_unit K w)) \<and>
   reads_only w (snd (current_temperature w)) \<and>
   reads_only w (snd (target_temperature w)) \<and>
   reads_only w (snd (max_temp w)) \<and>
   reads_only w (snd (min_temp w)) \<and>
   reads_only w (snd (current_humidity w)) \<and>
   reads_only w (snd (hvac_mode K w)) \<and>
   reads_only w (snd (hvac_modes K w)) \<and>
   (\<exists>a w'. hvac_action K w = Inr (a, w') \<and> reads_only w w') \<and>
   reads_only w (snd (preset_mode K w)) \<and>
   reads_only w (snd (preset_modes K w))"
proof -
  have "reads_only w (snd (hvac_mode K w))"
    by (simp add: hvac_mode_eq hvac_mode_calls_def reads_only_reads)
  moreover have "\<exists>a w'. hvac_action K w = Inr (a, w') \<and> reads_only w w'"
    using hvac_action_returns [of K w] reads_only_reads by blast
  moreover have "reads_only w (snd (device_state_attributes K w))"
    by (simp add: device_state_attributes_def get_battery_def called_reads reads_only_reads)
  moreover have "reads_only w (snd (hvac_modes K w))"
    by (simp add: hvac_modes_def get_hvac_state_def called_reads reads_only_reads)
  moreover have "reads_only w (snd (preset_mode K w))"
    by (simp add: preset_mode_eq called_reads reads_only_reads)
  moreover have "reads_only w (snd (current_temperature w))"
      "reads_only w (snd (target_temperature w))" "reads_only w (snd (current_humidity w))"
    by (simp_all add: current_temperature_eq target_temperature_eq current_humidity_def
        get_humidity_def called_reads reads_only_reads)
  ultimately show ?thesis
    by (simp add: supported_features_def temperature_unit_def max_temp_def min_temp_def
        preset_modes_def reads_only_refl)
qed

section \<open>Claims about the preset table\<close>

lemma run_steps_append:
  "run_steps (ss @ ts) t = (case run_steps ss t of None \<Rightarrow> None | Some t' \<Rightarrow> run_steps ts t')"
  by (induction ss arbitrary: t) (auto split: option.splits)

lemma run_steps_store_preset:
  "run_steps (map (\<lambda>(k, v). Store_preset k v) kvs) (p, r) =
     Some (fold (\<lambda>(k, v) d. dict_set k v d) kvs p, r)"
  by (induction kvs arbitrary: p) (auto split: prod.splits)

lemma run_steps_store_reverse:
  "run_steps (map (\<lambda>(k, v). Store_reverse v k) kvs) (p, r) =
     Some (p, fold (\<lambda>(k, v) d. dict_set k v d) (map (\<lambda>(k, v). (v, k)) kvs) r)"
  by (induction kvs arbitrary: r) (auto split: prod.splits)

lemma module_construction_builds:
  "run_steps (module_construction K) ([], []) =
     Some (PRESETS_MAPPING K, REVERSE_PRESET_MAPPING K)"
  unfolding module_construction_def run_steps_append run_steps_store_preset
  by (simp add: run_steps_store_reverse PRESETS_MAPPING_def REVERSE_PRESET_MAPPING_def
      dict_of_items_def)

lemma presets_mapping_bijective_if_distinct:
  assumes "distinct [PRESET_HOME K, PRESET_AWAY K, PRESET_SLEEP K, PRESET_MANUAL,
      PRESET_GEOFENCING, PRESET_FROST_GUARD]"
  shows "(\<forall>m. \<exists>n. dict_get (PRESETS_MAPPING K) m = Some n) \<and>
         distinct (dict_values (PRESETS_MAPPING K)) \<and>
         length (dict_values (PRESETS_MAPPING K)) = 6 \<and>
         (\<forall>m n. dict_get (REVERSE_PRESET_MAPPING K) n = Some m \<longleftrightarrow>
                 dict_get (PRESETS_MAPPING K) m = Some n) \<and>
         (\<forall>m. \<exists>n. dict_get (PRESETS_MAPPING K) m = Some n \<and>
                 dict_subscript (REVERSE_PRESET_MAPPING K) n = Inr m)"
proof -
  have total: "\<exists>n. dict_get (PRESETS_MAPPING K) m = Some n" for m
    by (cases m) (simp_all add: PRESETS_MAPPING_items dict_get_def)
  have vals: "distinct (dict_values (PRESETS_MAPPING K))"
      "length (dict_values (PRESETS_MAPPING K)) = 6"
    using assms by (simp_all add: PRESETS_MAPPING_items dict_values_def)
  have dk: "distinct (map fst (PRESETS_MAPPING K))" by (simp add: PRESETS_MAPPING_items)
  let ?sw = "map (\<lambda>(k, v). (v, k)) (PRESETS_MAPPING K)"
  have ds: "distinct (map fst (rev ?sw))"
    using vals(1) by (simp add: dict_values_def rev_map [symmetric] comp_def case_prod_beta)
  have iff: "dict_get (REVERSE_PRESET_MAPPING K) n = Some m \<longleftrightarrow>
      dict_get (PRESETS_MAPPING K) m = Some n" for m n
  proof -
    have "dict_get (REVERSE_PRESET_MAPPING K) n = Some m \<longleftrightarrow> (n, m) \<in> set (rev ?sw)"
      using ds
      by (simp add: REVERSE_PRESET_MAPPING_def dict_get_dict_of_items dict_items_def del: set_rev)
    also have "\<dots> \<longleftrightarrow> (m, n) \<in> set (PRESETS_MAPPING K)" by auto
    also have "\<dots> \<longleftrightarrow> dict_get (PRESETS_MAPPING K) m = Some n"
      using dk by (simp add: dict_get_def)
    finally show ?thesis .
  qed
  have roundtrip: "\<exists>n. dict_get (PRESETS_MAPPING K) m = Some n \<and>
      dict_subscript (REVERSE_PRESET_MAPPING K) n = Inr m" for m
  proof -
    from total obtain n where n: "dict_get (PRESETS_MAPPING K) m = Some n" by blast
    with iff have "dict_get (REVERSE_PRESET_MAPPING K) n = Some m" by simp
    then have "dict_subscript (REVERSE_PRESET_MAPPING K) n = Inr m"
      by (simp add: dict_get_def dict_subscript_def)
    with n show ?thesis by blast
  qed
  from total vals iff roundtrip show ?thesis by blast
qed

text \<open>
  C6, as stated, fails in its last clause.  Building the two tables with the platform's
  names is twelve dictionary stores and nothing else: no step of the construction checks
  completeness or uniqueness.
\<close>

theorem construction_not_validated_counterexample:
  "Validate_tables \<notin> set (module_construction K_platform) \<and>
   module_construction K_platform =
     [Store_preset AT_HOME ''home'', Store_preset AWAY ''away'', Store_preset SLEEP ''sleep'',
      Store_preset MANUAL ''Manual'', Store_preset GEOFENCING ''Geofencing'',
      Store_preset FROST_PROTECTION ''Frost Guard'',
      Store_reverse ''home'' AT_HOME, Store_reverse ''away'' AWAY,
      Store_reverse ''sleep'' SLEEP, Store_reverse ''Manual'' MANUAL,
      Store_reverse ''Geofencing'' GEOFENCING, Store_reverse ''Frost Guard'' FROST_PROTECTION] \<and>
   run_steps (module_construction K_platform) ([], []) =
     Some (PRESETS_MAPPING K_platform, REVERSE_PRESET_MAPPING K_platform)"
proof -
  have steps: "module_construction K_platform =
     [Store_preset AT_HOME ''home'', Store_preset AWAY ''away'', Store_preset SLEEP ''sleep'',
      Store_preset MANUAL ''Manual'', Store_preset GEOFENCING ''Geofencing'',
      Store_preset FROST_PROTECTION ''Frost Guard'',
      Store_reverse ''home'' AT_HOME, Store_reverse ''away'' AWAY,
      Store_reverse ''sleep'' SLEEP, Store_reverse ''Manual'' MANUAL,
      Store_reverse ''Geofencing'' GEOFENCING, Store_reverse ''Frost Guard'' FROST_PROTECTION]"
    by (simp add: module_construction_def PRESETS_MAPPING_items dict_items_def K_platform_def
        preset_name_defs)
  have "Validate_tables \<notin> set (module_construction K_platform)"
    unfolding steps by simp
  with steps module_construction_builds [of K_platform] show ?thesis by blast
qed

text \<open>
  C6 (amended).  \<open>PRESETS_MAPPING\<close> gives every one of the six \<open>TargetMode\<close> values a
  preset name, the six names are distinct, \<open>REVERSE_PRESET_MAPPING\<close> sends a name to a mode
  exactly when \<open>PRESETS_MAPPING\<close> sends that mode to the name (so each name has exactly one
  mode), and \<open>REVERSE_PRESET_MAPPING[PRESETS_MAPPING[m]] = m\<close> for every mode \<open>m\<close>.
  Nothing validates this when the tables are built.
\<close>

theorem presets_mapping_bijective:
  "(\<forall>m. \<exists>n. dict_get (PRESETS_MAPPING K_platform) m = Some n) \<and>
   distinct (dict_values (PRESETS_MAPPING K_platform)) \<and>
   length (dict_values (PRESETS_MAPPING K_platform)) = 6 \<and>
   (\<forall>m n. dict_get (REVERSE_PRESET_MAPPING K_platform) n = Some m \<longleftrightarrow>
           dict_get (PRESETS_MAPPING K_platform) m = Some n) \<and>
   (\<forall>m. \<exists>n. dict_get (PRESETS_MAPPING K_platform) m = Some n \<and>
           dict_subscript (REVERSE_PRESET_MAPPING K_platform) n = Inr m)"
proof -
  have "distinct [PRESET_HOME K_platform, PRESET_AWAY K_platform, PRESET_SLEEP K_platform,
      PRESET_MANUAL, PRESET_GEOFENCING, PRESET_FROST_GUARD]"
    by (simp add: K_platform_def preset_name_defs)
  then show ?thesis by (rule presets_mapping_bijective_if_distinct)
qed

section \<open>Claims about the devolo binary sensors\<close>

lemma fold_sync_kind: "kind (fold sync msgs e) = kind e"
proof (induction msgs arbitrary: e)
  case Nil
  then show ?case by simp
next
  case (Cons msg msgs)
  obtain name ps where msg: "msg = (name, ps)" by (cases msg)
  have "kind (sync msg e) = kind e"
    unfolding msg by (cases ps) simp_all
  with Cons show ?case by simp
qed

text \<open>
  C7.  Whatever notifications a binary-sensor or remote-control entity has received, its
  state is \<open>unavailable\<close> whenever the status code of its device is 1, and is on or off by
  the last reported value when the status code is 0.  In particular the sensor of the test
  that last reported on, and the button that last reported off, both read \<open>unavailable\<close>
  once the device's status is 1 and the status notification has been delivered.
\<close>

theorem status_forces_unavailable:
  "(status dev = 1 \<longrightarrow> entity_state dev (fold sync msgs e) = Some STATE_UNAVAILABLE) \<and>
   (status dev = 0 \<longrightarrow>
      entity_state dev (fold sync msgs e) =
        Some (if is_on (fold sync msgs e) then STATE_ON else STATE_OFF)) \<and>
   kind (fold sync msgs e) = kind e"
  by (simp add: entity_state_def fold_sync_kind)

theorem status_forces_unavailable_witness:
  "status (test_device\<lparr>status := 1\<rparr>) = 1 \<and> status test_device = 0 \<and>
   entity_state test_device (fold sync [(''Test'', [PBool True])] test_door) = Some STATE_ON \<and>
   is_on (fold sync [(''Test'', [PBool True]), (''Status'', [PBool False, PStr ''status''])]
     test_door) \<and>
   entity_state (test_device\<lparr>status := 1\<rparr>)
     (fold sync [(''Test'', [PBool True]), (''Status'', [PBool False, PStr ''status''])]
        test_door) = Some STATE_UNAVAILABLE \<and>
   entity_state test_device (fold sync [(''Test'', [PInt 1])] test_button_1) = Some STATE_ON \<and>
   entity_state test_device (fold sync [(''Test'', [PInt 1]), (''Test'', [PInt 0])]
     test_button_1) = Some STATE_OFF \<and>
   entity_state (test_device\<lparr>status := 1\<rparr>)
     (fold sync [(''Test'', [PInt 1]), (''Test'', [PInt 0]),
        (''Status'', [PBool False, PStr ''status''])] test_button_1) = Some STATE_UNAVAILABLE"
  using
    status_forces_unavailable [of "test_device\<lparr>status := 1\<rparr>"
      "[(''Test'', [PBool True]), (''Status'', [PBool False, PStr ''status''])]" test_door]
    status_forces_unavailable [of "test_device\<lparr>status := 1\<rparr>"
      "[(''Test'', [PInt 1]), (''Test'', [PInt 0]),
        (''Status'', [PBool False, PStr ''status''])]" test_button_1]
    status_forces_unavailable [of test_device "[(''Test'', [PBool True])]" test_door]
    status_forces_unavailable [of test_device "[(''Test'', [PInt 1])]" test_button_1]
    status_forces_unavailable [of test_device "[(''Test'', [PInt 1]), (''Test'', [PInt 0])]"
      test_button_1]
  by (simp add: test_device_def test_door_def test_button_1_def)

subsection \<open>Removal of the integration\<close>










end
